theory Spec2Isabelle
  imports Complex_Main "HOL-Library.Char_ord" "HOL-Library.List_Lexorder"
begin

section \<open>The blowout-prior mining pipeline (scripts/mine_blowout_priors.py)\<close>

text \<open>
  A shallow embedding of the pipeline of \<^verbatim>\<open>scripts/mine_blowout_priors.py\<close>.

  Conventions of the embedding.
  \<^item> Python floats are modelled as exact rationals (\<^typ>\<open>rat\<close>): binary rounding error,
    infinities and overflow are not modelled. Not-a-number is modelled only where the
    source tests for it (\<^verbatim>\<open>is_nan(tid)\<close>, \<^verbatim>\<open>fta_rate.isna()\<close>); the box-score
    statistics and the pace, rating and possession columns of the raw store are finite.
  \<^item> The two CSV files are modelled as the lists of rows they hold; reading a file back
    returns the rows that were appended to it.
  \<^item> The upstream service is an input: the answer to each request is either an exception
    or the tables returned.
  \<^item> Sleeping, logging and the HTTP session have no effect on the data and are left out.
\<close>

subsection \<open>Python values, exceptions and library functions\<close>

datatype py_error =
    TypeError | ValueError | KeyError | IndexError | ZeroDivisionError
  | ConnectionError | JSONDecodeError

text \<open>\<^verbatim>\<open>type(e).__name__\<close>\<close>

fun exn_name :: "py_error \<Rightarrow> string" where
  "exn_name TypeError = ''TypeError''"
| "exn_name ValueError = ''ValueError''"
| "exn_name KeyError = ''KeyError''"
| "exn_name IndexError = ''IndexError''"
| "exn_name ZeroDivisionError = ''ZeroDivisionError''"
| "exn_name ConnectionError = ''ConnectionError''"
| "exn_name JSONDecodeError = ''JSONDecodeError''"

text \<open>
  A cell of a data frame that the source converts with \<^verbatim>\<open>int()\<close>, \<^verbatim>\<open>pd.to_numeric\<close> or
  tests with \<^verbatim>\<open>is_nan\<close>: a finite number, NaN, \<^verbatim>\<open>None\<close>, or a string that is not a
  numeric literal.
\<close>

datatype pyval = Num rat | NaN | NoneV | Str string

text \<open>
  A box-score statistic read with \<^verbatim>\<open>float(row.get(k, default))\<close>: the column is absent
  (the default is taken), or the cell holds a finite number, \<^verbatim>\<open>None\<close>, or a string that
  is not a numeric literal.
\<close>

datatype stat = Absent | Val rat | NoneS | StrS string

text \<open>\<^verbatim>\<open>is_nan\<close>: \<^verbatim>\<open>pd.isna(x)\<close> holds of NaN and of \<^verbatim>\<open>None\<close>.\<close>

definition is_nan :: "pyval \<Rightarrow> bool" where
  "is_nan x = (case x of NaN \<Rightarrow> True | NoneV \<Rightarrow> True | _ \<Rightarrow> False)"

text \<open>\<^verbatim>\<open>int(x)\<close> on a float truncates towards zero.\<close>

definition py_trunc :: "rat \<Rightarrow> int" where
  "py_trunc q = (if 0 \<le> q then \<lfloor>q\<rfloor> else \<lceil>q\<rceil>)"

fun py_int :: "pyval \<Rightarrow> py_error + int" where
  "py_int (Num q) = Inr (py_trunc q)"
| "py_int NaN = Inl ValueError"
| "py_int NoneV = Inl TypeError"
| "py_int (Str s) = Inl ValueError"

fun py_float :: "stat \<Rightarrow> rat \<Rightarrow> py_error + rat" where
  "py_float Absent dflt = Inr dflt"
| "py_float (Val q) dflt = Inr q"
| "py_float NoneS dflt = Inl TypeError"
| "py_float (StrS s) dflt = Inl ValueError"

text \<open>\<^verbatim>\<open>round(x, n)\<close>: to \<open>n\<close> decimals, a tie going to the even neighbour.\<close>

definition round_half_even :: "rat \<Rightarrow> int" where
  "round_half_even x =
     (let f = \<lfloor>x\<rfloor>; d = x - of_int f
      in if d < 1 / 2 then f else if 1 / 2 < d then f + 1 else if even f then f else f + 1)"

definition py_round :: "rat \<Rightarrow> nat \<Rightarrow> rat" where
  "py_round x n = of_int (round_half_even (x * 10 ^ n)) / 10 ^ n"

text \<open>\<^verbatim>\<open>s.strip()\<close> on an ASCII string.\<close>

definition is_space :: "char \<Rightarrow> bool" where
  "is_space c = (c \<in> set [CHR '' '', CHR 0x09, CHR 0x0A, CHR 0x0B, CHR 0x0C, CHR 0x0D,
                           CHR 0x1C, CHR 0x1D, CHR 0x1E, CHR 0x1F])"

definition py_strip :: "string \<Rightarrow> string" where
  "py_strip s = rev (dropWhile is_space (rev (dropWhile is_space s)))"

text \<open>\<^verbatim>\<open>p in s\<close> on strings: \<open>p\<close> occurs in \<open>s\<close> as a contiguous run.\<close>

fun starts_with :: "string \<Rightarrow> string \<Rightarrow> bool" where
  "starts_with s [] = True"
| "starts_with [] (p # ps) = False"
| "starts_with (c # cs) (p # ps) = (c = p \<and> starts_with cs ps)"

fun py_contains :: "string \<Rightarrow> string \<Rightarrow> bool" where
  "py_contains p [] = (p = [])"
| "py_contains p (c # cs) = (starts_with (c # cs) p \<or> py_contains p cs)"

text \<open>\<^verbatim>\<open>Series.unique()\<close>: the distinct values in order of first appearance.\<close>

fun pd_unique :: "'a list \<Rightarrow> 'a list" where
  "pd_unique [] = []"
| "pd_unique (x # xs) = x # pd_unique (filter (\<lambda>y. y \<noteq> x) xs)"

text \<open>
  \<^verbatim>\<open>np.average(a, weights=w)\<close>: the sum of the weights is taken first, numpy raises
  \<^verbatim>\<open>ZeroDivisionError\<close> when it is zero, and otherwise divides the sum of the products
  by it.
\<close>

definition np_average :: "rat list \<Rightarrow> rat list \<Rightarrow> py_error + rat" where
  "np_average a w =
     (let scl = sum_list w
      in if scl = 0 then Inl ZeroDivisionError
         else Inr (sum_list (map (\<lambda>(x, y). x * y) (zip a w)) / scl))"

text \<open>
  Division of two numpy floats: no exception on a zero divisor, the result is then
  infinite or NaN, written \<open>None\<close> here.
\<close>

definition np_divide :: "rat \<Rightarrow> rat \<Rightarrow> rat option" where
  "np_divide a b = (if b = 0 then None else Some (a / b))"

subsection \<open>Configuration\<close>

definition BLOWOUT_MARGIN_Q4 :: int where "BLOWOUT_MARGIN_Q4 = 15"
definition CLOSE_MARGIN_Q4 :: int where "CLOSE_MARGIN_Q4 = 10"
definition BASELINE_MIN_POSS :: rat where "BASELINE_MIN_POSS = 100"
definition TREATMENT_MIN_POSS :: rat where "TREATMENT_MIN_POSS = 20"
definition CLOSE_FTA_RATE_MAX :: rat where "CLOSE_FTA_RATE_MAX = 35 / 100"
definition ENABLE_FOUL_FILTER :: bool where "ENABLE_FOUL_FILTER = True"
definition BATCH_SIZE :: nat where "BATCH_SIZE = 10"

subsection \<open>Data model\<close>

text \<open>A row of the game finder's frame: one team's totals in one game.\<close>

record stats_row =
  GAME_ID :: string
  WL :: "string option"
  TEAM_ID :: pyval
  TEAM_ABBREVIATION :: "string option"
  PTS :: stat
  FGA :: stat
  FTA :: stat
  TOV :: stat
  OREB :: stat
  MIN_total :: stat

text \<open>A row of the line-score table, and a table of a box-score summary.\<close>

record line_row =
  LS_TEAM_ID :: pyval
  PTS_QTR1 :: pyval
  PTS_QTR2 :: pyval
  PTS_QTR3 :: pyval

record table =
  columns :: "string list"
  trows :: "line_row list"

text \<open>
  TeamPeriodRow, a row of the raw store. \<open>fta_rate\<close> is \<open>None\<close> where the file read back
  has no value in that column (pandas reads it as NaN).
\<close>

record raw_row =
  game_id :: string
  team :: string
  game_state :: string
  team_state :: string
  pace :: rat
  ortg :: rat
  poss :: rat
  fta_rate :: "rat option"

record manifest_entry =
  me_game_id :: string
  status :: string
  reason :: string
  processed_at_utc :: string

type_synonym row_key = "string \<times> string \<times> string \<times> string"

definition key_of :: "raw_row \<Rightarrow> row_key" where
  "key_of r = (game_id r, team r, game_state r, team_state r)"

subsection \<open>Third-period margins\<close>

definition required_columns :: "string list" where
  "required_columns = [''TEAM_ID'', ''TEAM_ABBREVIATION'', ''PTS_QTR1'', ''PTS_QTR2'', ''PTS_QTR3'']"

definition extract_line_score_table :: "table list \<Rightarrow> table option" where
  "extract_line_score_table dfs =
     find (\<lambda>d. set required_columns \<subseteq> set (columns d) \<and> 2 \<le> length (trows d)) dfs"

text \<open>\<^verbatim>\<open>pd.to_numeric(c, errors="coerce").fillna(0).astype(int)\<close> on one cell.\<close>

fun to_numeric_int :: "pyval \<Rightarrow> int" where
  "to_numeric_int (Num q) = py_trunc q"
| "to_numeric_int v = 0"

definition PTS_ENTER_Q4 :: "line_row \<Rightarrow> int" where
  "PTS_ENTER_Q4 r = to_numeric_int (PTS_QTR1 r) + to_numeric_int (PTS_QTR2 r) + to_numeric_int (PTS_QTR3 r)"

text \<open>
  The body of the \<^verbatim>\<open>try\<close> of \<^verbatim>\<open>get_q3_margins\<close>. The argument is the answer of the
  summary request. \<open>Inl e\<close>: the exception \<open>e\<close> is raised inside the \<^verbatim>\<open>try\<close>;
  \<open>Inr None\<close>: the early \<^verbatim>\<open>return None\<close>. The dictionary literal is built left to right,
  so the second key overwrites the first when the two are equal.
\<close>

definition q3_margins_try :: "py_error + table list \<Rightarrow> py_error + (int \<rightharpoonup> int) option" where
  "q3_margins_try response =
     (case response of
        Inl e \<Rightarrow> Inl e
      | Inr dfs \<Rightarrow>
          (case extract_line_score_table dfs of
             None \<Rightarrow> Inr None
           | Some line \<Rightarrow>
               (case trows line of
                  t1 # t2 # rest \<Rightarrow>
                    (case py_int (LS_TEAM_ID t1) of
                       Inl e \<Rightarrow> Inl e
                     | Inr t1_id \<Rightarrow>
                         (case py_int (LS_TEAM_ID t2) of
                            Inl e \<Rightarrow> Inl e
                          | Inr t2_id \<Rightarrow>
                              (let t1_pts = PTS_ENTER_Q4 t1; t2_pts = PTS_ENTER_Q4 t2
                               in Inr (Some [t1_id \<mapsto> t1_pts - t2_pts, t2_id \<mapsto> t2_pts - t1_pts]))))
                | _ \<Rightarrow> Inr None)))"

text \<open>\<^verbatim>\<open>get_q3_margins\<close>: the bare \<^verbatim>\<open>except\<close> turns every exception into \<^verbatim>\<open>None\<close>.\<close>

definition get_q3_margins :: "py_error + table list \<Rightarrow> (int \<rightharpoonup> int) option" where
  "get_q3_margins response =
     (case q3_margins_try response of Inl e \<Rightarrow> None | Inr m \<Rightarrow> m)"

subsection \<open>The fallback estimator\<close>

text \<open>The classification of a team by its margin; \<open>None\<close> is the \<^verbatim>\<open>continue\<close>.\<close>

definition classify :: "int \<Rightarrow> (string \<times> string) option" where
  "classify margin =
     (let abs_m = \<bar>margin\<bar>
      in if BLOWOUT_MARGIN_Q4 \<le> abs_m then Some (''blowout'', if 0 < margin then ''leading'' else ''trailing'')
         else if abs_m \<le> CLOSE_MARGIN_Q4 then Some (''close'', ''neutral'')
         else None)"

definition poss_estimate :: "rat \<Rightarrow> rat \<Rightarrow> rat \<Rightarrow> rat \<Rightarrow> rat" where
  "poss_estimate fga fta oreb tov = fga + (44 / 100 * fta) - oreb + tov"

definition pace_estimate :: "rat \<Rightarrow> rat \<Rightarrow> rat" where
  "pace_estimate poss' min_played = (if 0 < min_played then (poss' / min_played) * 48 else 100)"

definition ortg_estimate :: "rat \<Rightarrow> rat \<Rightarrow> rat" where
  "ortg_estimate pts poss' = (if 0 < poss' then (pts / poss') * 100 else 110)"

text \<open>Sequencing of a step that may raise: the first exception ends the computation.\<close>

definition bind_err :: "'e + 'a \<Rightarrow> ('a \<Rightarrow> 'e + 'b) \<Rightarrow> 'e + 'b" where
  "bind_err m f = (case m of Inl e \<Rightarrow> Inl e | Inr x \<Rightarrow> f x)"

text \<open>
  The body of the loop over the game's rows in \<^verbatim>\<open>fetch_q4_rows_fallback\<close>:
  \<open>Inl e\<close> when it raises \<open>e\<close>, \<open>Inr None\<close> when it reaches a \<^verbatim>\<open>continue\<close>,
  \<open>Inr (Some r)\<close> when it appends the row \<open>r\<close>.
\<close>

definition fallback_row :: "string \<Rightarrow> (int \<rightharpoonup> int) \<Rightarrow> stats_row \<Rightarrow> py_error + raw_row option" where
  "fallback_row gid margins row =
     (if is_nan (TEAM_ID row) then Inr None
      else bind_err (py_int (TEAM_ID row)) (\<lambda>tid.
        case margins tid of
          None \<Rightarrow> Inr None
        | Some margin \<Rightarrow>
            (case classify margin of
               None \<Rightarrow> Inr None
             | Some (g_state, t_state) \<Rightarrow>
                 (let team_abbr = py_strip (case TEAM_ABBREVIATION row of None \<Rightarrow> [] | Some a \<Rightarrow> a)
                  in bind_err (py_float (PTS row) 0) (\<lambda>pts.
                     bind_err (py_float (FGA row) 0) (\<lambda>fga.
                     bind_err (py_float (FTA row) 0) (\<lambda>fta.
                     bind_err (py_float (TOV row) 0) (\<lambda>tov.
                     bind_err (py_float (OREB row) 0) (\<lambda>oreb.
                     bind_err (py_float (MIN_total row) 240) (\<lambda>min_total.
                       let min_played = min_total / 5;
                           poss' = poss_estimate fga fta oreb tov
                       in if poss' \<le> 0 then Inr None
                          else Inr (Some \<lparr> game_id = gid, team = team_abbr,
                                 game_state = g_state, team_state = t_state,
                                 pace = py_round (pace_estimate poss' min_played) 2,
                                 ortg = py_round (ortg_estimate pts poss') 2,
                                 poss = py_round (poss' / 4) 2,
                                 fta_rate = Some (if 0 < fga then py_round (fta / fga) 4 else 0) \<rparr>)))))))))))"

text \<open>The loop itself, with the list \<^verbatim>\<open>rows\<close> as accumulator.\<close>

fun fallback_rows :: "string \<Rightarrow> (int \<rightharpoonup> int) \<Rightarrow> stats_row list \<Rightarrow> raw_row list \<Rightarrow> py_error + raw_row list" where
  "fallback_rows gid margins [] rows = Inr rows"
| "fallback_rows gid margins (row # rest) rows =
     (case fallback_row gid margins row of
        Inl e \<Rightarrow> Inl e
      | Inr None \<Rightarrow> fallback_rows gid margins rest rows
      | Inr (Some r) \<Rightarrow> fallback_rows gid margins rest (rows @ [r]))"

text \<open>The \<^verbatim>\<open>try\<close> block of \<^verbatim>\<open>fetch_q4_rows_fallback\<close>.\<close>

definition fetch_q4_rows_try :: "string \<Rightarrow> (int \<rightharpoonup> int) \<Rightarrow> stats_row list \<Rightarrow> py_error + raw_row list \<times> string" where
  "fetch_q4_rows_try gid margins team_stats =
     (let game_rows = filter (\<lambda>r. GAME_ID r = gid) team_stats
      in if length game_rows < 2 then Inr ([], ''ERROR_NO_DATA'')
         else bind_err (fallback_rows gid margins game_rows []) (\<lambda>rows.
                Inr (rows, if rows \<noteq> [] then ''DONE'' else ''SKIP_MEDIUM'')))"

text \<open>The function with its handler: an exception becomes the status \<^verbatim>\<open>ERROR_<name>\<close>.\<close>

definition fetch_q4_rows_fallback :: "string \<Rightarrow> (int \<rightharpoonup> int) \<Rightarrow> stats_row list \<Rightarrow> raw_row list \<times> string" where
  "fetch_q4_rows_fallback gid margins team_stats =
     (case fetch_q4_rows_try gid margins team_stats of
        Inl e \<Rightarrow> ([], ''ERROR_'' @ exn_name e)
      | Inr res \<Rightarrow> res)"

subsection \<open>The prior aggregator\<close>

record baseline =
  b_pace :: rat
  b_ortg :: rat
  b_nPoss :: int

text \<open>A delta is \<open>None\<close> when the division by the baseline mean is not finite.\<close>

record delta =
  paceDelta :: "rat option"
  pppDelta :: "rat option"
  d_nPoss :: int

text \<open>An entry of the priors list; the keys \<^verbatim>\<open>leading\<close> and \<^verbatim>\<open>trailing\<close> are optional.\<close>

record prior_entry =
  p_team :: string
  p_baseline :: baseline
  leading :: "delta option"
  trailing :: "delta option"

record priors_doc =
  league :: "string option"
  season :: string
  generated_at :: "string option"
  priors :: "prior_entry list"

text \<open>
  The rows of the close baseline of a team: its close rows, without those whose
  free-throw rate is present and above the ceiling when the filter applies.
  \<open>has_fta_rate\<close> says that the frame has the column \<^verbatim>\<open>fta_rate\<close>.
\<close>

definition foul_filter :: "bool \<Rightarrow> raw_row list \<Rightarrow> raw_row list" where
  "foul_filter has_fta_rate close_df =
     (if ENABLE_FOUL_FILTER \<and> has_fta_rate
      then filter (\<lambda>r. fta_rate r = None \<or> (case fta_rate r of None \<Rightarrow> False | Some x \<Rightarrow> x \<le> CLOSE_FTA_RATE_MAX)) close_df
      else close_df)"

definition close_rows :: "bool \<Rightarrow> raw_row list \<Rightarrow> string \<Rightarrow> raw_row list" where
  "close_rows has_fta_rate df t =
     foul_filter has_fta_rate (filter (\<lambda>r. game_state r = ''close'') (filter (\<lambda>r. team r = t) df))"

definition bucket_rows :: "raw_row list \<Rightarrow> string \<Rightarrow> string \<Rightarrow> raw_row list" where
  "bucket_rows df t state =
     filter (\<lambda>r. team_state r = state) (filter (\<lambda>r. game_state r = ''blowout'') (filter (\<lambda>r. team r = t) df))"

text \<open>
  Lines 261 to 265: the possession total of the baseline and the two weighted means;
  \<open>Inr None\<close> is the \<^verbatim>\<open>continue\<close> of a baseline that is too small.
\<close>

definition team_baseline :: "bool \<Rightarrow> raw_row list \<Rightarrow> string \<Rightarrow> py_error + (rat \<times> rat \<times> rat) option" where
  "team_baseline has_fta_rate df t =
     (let close_df = close_rows has_fta_rate df t;
          close_poss = sum_list (map poss close_df)
      in if close_poss < BASELINE_MIN_POSS then Inr None
         else bind_err (np_average (map pace close_df) (map poss close_df)) (\<lambda>base_pace.
              bind_err (np_average (map ortg close_df) (map poss close_df)) (\<lambda>base_ortg.
                Inr (Some (base_pace, base_ortg, close_poss)))))"

text \<open>The body of the loop over the two states: the value stored under the key, if any.\<close>

definition bucket_delta :: "raw_row list \<Rightarrow> string \<Rightarrow> string \<Rightarrow> rat \<Rightarrow> rat \<Rightarrow> py_error + delta option" where
  "bucket_delta df t state base_pace base_ortg =
     (let s_df = bucket_rows df t state;
          s_poss = sum_list (map poss s_df)
      in if TREATMENT_MIN_POSS \<le> s_poss
         then bind_err (np_average (map pace s_df) (map poss s_df)) (\<lambda>avg_pace.
              bind_err (np_average (map ortg s_df) (map poss s_df)) (\<lambda>avg_ortg.
                Inr (Some \<lparr> paceDelta = map_option (\<lambda>x. py_round x 4) (np_divide avg_pace base_pace),
                             pppDelta = map_option (\<lambda>x. py_round x 4) (np_divide avg_ortg base_ortg),
                             d_nPoss = py_trunc s_poss \<rparr>)))
         else Inr None)"

text \<open>The body of the loop over the teams; \<open>Inr None\<close>: nothing is appended.\<close>

definition team_entry :: "bool \<Rightarrow> raw_row list \<Rightarrow> string \<Rightarrow> py_error + prior_entry option" where
  "team_entry has_fta_rate df t =
     bind_err (team_baseline has_fta_rate df t) (\<lambda>b.
       case b of
         None \<Rightarrow> Inr None
       | Some (base_pace, base_ortg, close_poss) \<Rightarrow>
           bind_err (bucket_delta df t ''leading'' base_pace base_ortg) (\<lambda>lead.
           bind_err (bucket_delta df t ''trailing'' base_pace base_ortg) (\<lambda>trail.
             if lead \<noteq> None \<or> trail \<noteq> None
             then Inr (Some \<lparr> p_team = t,
                     p_baseline = \<lparr> b_pace = py_round base_pace 2, b_ortg = py_round base_ortg 2,
                                    b_nPoss = py_trunc close_poss \<rparr>,
                     leading = lead, trailing = trail \<rparr>)
             else Inr None)))"

fun team_loop :: "bool \<Rightarrow> raw_row list \<Rightarrow> string list \<Rightarrow> prior_entry list \<Rightarrow> py_error + prior_entry list" where
  "team_loop has_fta_rate df [] acc = Inr acc"
| "team_loop has_fta_rate df (t # ts) acc =
     (case team_entry has_fta_rate df t of
        Inl e \<Rightarrow> Inl e
      | Inr None \<Rightarrow> team_loop has_fta_rate df ts acc
      | Inr (Some entry) \<Rightarrow> team_loop has_fta_rate df ts (acc @ [entry]))"

text \<open>\<open>now\<close> is the time stamp \<^verbatim>\<open>pd.Timestamp.utcnow().isoformat()\<close>.\<close>

definition generate_priors :: "bool \<Rightarrow> raw_row list \<Rightarrow> string \<Rightarrow> string \<Rightarrow> py_error + priors_doc" where
  "generate_priors has_fta_rate df season' now =
     (if df = [] then Inr \<lparr> league = None, season = season', generated_at = None, priors = [] \<rparr>
      else bind_err (team_loop has_fta_rate df (sort (pd_unique (map team df))) []) (\<lambda>ps.
             Inr \<lparr> league = Some ''NBA'', season = season', generated_at = Some now, priors = ps \<rparr>))"

subsection \<open>The main loop\<close>

text \<open>
  The upstream service and the clock: the answer of the game finder, the answer of the
  box-score summary of each game, and the time stamp taken at each game of the loop.
\<close>

record env =
  finder :: "py_error + stats_row list"
  summary :: "string \<Rightarrow> py_error + table list"
  clock :: "nat \<Rightarrow> string"

text \<open>
  \<^verbatim>\<open>get_completed_game_data\<close>: an exception in the request or in the filters is caught
  and gives the empty frame, as does an empty answer.
\<close>

definition get_completed_game_data :: "py_error + stats_row list \<Rightarrow> stats_row list" where
  "get_completed_game_data answer =
     (case answer of
        Inl e \<Rightarrow> []
      | Inr games \<Rightarrow>
          if games = [] then []
          else filter (\<lambda>g. WL g \<noteq> None) (filter (\<lambda>g. starts_with (GAME_ID g) ''002'') games))"

text \<open>The files on disk.\<close>

record store =
  raw_rows :: "raw_row list"
  raw_has_fta_rate :: bool
  manifest_rows :: "manifest_entry list"
  priors_out :: "priors_doc option"

text \<open>The variables of the loop in \<^verbatim>\<open>main\<close>, with the two files it appends to.\<close>

record state =
  batch_raw :: "raw_row list"
  batch_manifest :: "manifest_entry list"
  existing_keys :: "row_key set"
  raw_file :: "raw_row list"
  manifest_file :: "manifest_entry list"

definition processed_ids :: "bool \<Rightarrow> manifest_entry list \<Rightarrow> string set" where
  "processed_ids retry_errors manifest =
     (if retry_errors
      then set (map me_game_id (filter (\<lambda>m. status m \<in> set [''DONE'', ''SKIP_MEDIUM'']) manifest))
      else set (map me_game_id manifest))"

definition new_game_ids :: "bool \<Rightarrow> manifest_entry list \<Rightarrow> string list \<Rightarrow> string list" where
  "new_game_ids retry_errors manifest all_game_ids =
     filter (\<lambda>g. g \<notin> processed_ids retry_errors manifest) all_game_ids"

text \<open>Lines 318 to 323: the rows of a game are staged unless their key has been seen.\<close>

fun stage_rows :: "raw_row list \<Rightarrow> raw_row list \<times> row_key set \<Rightarrow> raw_row list \<times> row_key set" where
  "stage_rows [] st = st"
| "stage_rows (r # rs) (batch, keys) =
     (if key_of r \<notin> keys then stage_rows rs (batch @ [r], insert (key_of r) keys)
      else stage_rows rs (batch, keys))"

definition mk_entry :: "string \<Rightarrow> string \<Rightarrow> string \<Rightarrow> string \<Rightarrow> manifest_entry" where
  "mk_entry gid st why stamp = \<lparr> me_game_id = gid, status = st, reason = why, processed_at_utc = stamp \<rparr>"

text \<open>Lines 332 to 336: the batch is appended to the files and emptied.\<close>

definition flush :: "nat \<Rightarrow> nat \<Rightarrow> state \<Rightarrow> state" where
  "flush n i s =
     (if BATCH_SIZE \<le> length (batch_manifest s) \<or> int i = int n - 1
      then s \<lparr> raw_file := raw_file s @ batch_raw s,
               manifest_file := manifest_file s @ batch_manifest s,
               batch_raw := [], batch_manifest := [] \<rparr>
      else s)"

text \<open>
  One iteration of the loop over the new games, \<open>i\<close> the index and \<open>n\<close> the number of new
  games. A game without margins takes the \<^verbatim>\<open>continue\<close> of line 311, which also skips the
  flush at the end of the body. \<^verbatim>\<open>get_q3_margins\<close> returns \<^verbatim>\<open>None\<close> or a dictionary with
  a key, so \<^verbatim>\<open>not margins\<close> holds exactly of \<^verbatim>\<open>None\<close>. Both helpers catch their own
  exceptions and nothing else in the body raises, so the handler of line 328 is never
  entered and has no branch here.
\<close>

definition game_step :: "env \<Rightarrow> stats_row list \<Rightarrow> nat \<Rightarrow> nat \<Rightarrow> string \<Rightarrow> state \<Rightarrow> state" where
  "game_step e all_games_df n i gid s =
     (case get_q3_margins (summary e gid) of
        None \<Rightarrow>
          s \<lparr> batch_manifest := batch_manifest s @ [mk_entry gid ''ERROR'' ''no_linescore'' (clock e i)] \<rparr>
      | Some margins \<Rightarrow>
          (case fetch_q4_rows_fallback gid margins all_games_df of
             (rows, st) \<Rightarrow>
               flush n i
                 (if st = ''DONE''
                  then (case stage_rows rows (batch_raw s, existing_keys s) of
                          (batch, keys) \<Rightarrow>
                            s \<lparr> batch_raw := batch, existing_keys := keys,
                                batch_manifest := batch_manifest s @ [mk_entry gid ''DONE'' ''success'' (clock e i)] \<rparr>)
                  else s \<lparr> batch_manifest := batch_manifest s @
                             [mk_entry gid (if py_contains ''SKIP'' st then ''SKIP_MEDIUM'' else ''ERROR'') st (clock e i)] \<rparr>)))"

fun main_loop :: "env \<Rightarrow> stats_row list \<Rightarrow> nat \<Rightarrow> nat \<Rightarrow> string list \<Rightarrow> state \<Rightarrow> state" where
  "main_loop e all_games_df n i [] s = s"
| "main_loop e all_games_df n i (gid # gids) s =
     main_loop e all_games_df n (Suc i) gids (game_step e all_games_df n i gid s)"

text \<open>
  The result of a run: the files, and the exception that ended \<^verbatim>\<open>main\<close> if one did.
  The script calls \<^verbatim>\<open>main()\<close> and nothing else, and never calls \<^verbatim>\<open>sys.exit\<close>: the
  interpreter exits with 0 when \<^verbatim>\<open>main\<close> returns and with 1 on an uncaught exception.
\<close>

record run_result =
  files :: store
  uncaught :: "py_error option"


definition main :: "env \<Rightarrow> string \<Rightarrow> bool \<Rightarrow> store \<Rightarrow> run_result" where
  "main e season' retry_errors st =
     (let manifest = manifest_rows st;
          raw_df = raw_rows st;
          keys = (if raw_df \<noteq> [] then set (map key_of raw_df) else {});
          all_games_df = get_completed_game_data (finder e)
      in if all_games_df = [] then \<lparr> files = st, uncaught = None \<rparr>
         else
           (let all_game_ids = pd_unique (map GAME_ID all_games_df);
                new_ids = new_game_ids retry_errors manifest all_game_ids;
                s = main_loop e all_games_df (length new_ids) 0 new_ids
                      \<lparr> batch_raw = [], batch_manifest = [], existing_keys = keys,
                        raw_file = raw_df, manifest_file = manifest \<rparr>;
                st' = st \<lparr> raw_rows := raw_file s, manifest_rows := manifest_file s \<rparr>
            in case generate_priors (raw_has_fta_rate st) (raw_file s) season' (clock e (length new_ids)) of
                 Inl err \<Rightarrow> \<lparr> files = st', uncaught = Some err \<rparr>
               | Inr doc \<Rightarrow> \<lparr> files = st' \<lparr> priors_out := Some doc \<rparr>, uncaught = None \<rparr>))"


subsection \<open>The invariant of the main loop\<close>


subsection \<open>The aggregates in the words of the specification\<close>

text \<open>
  The possession-weighted mean as the specification words it: the sum of value times
  possessions divided by the sum of possessions.
\<close>

definition spec_weighted_mean :: "rat list \<Rightarrow> rat list \<Rightarrow> rat" where
  "spec_weighted_mean vs ws = sum_list (map (\<lambda>(v, w). v * w) (zip vs ws)) / sum_list ws"

text \<open>
  The field of a blowout bucket: the bucket's weighted means as ratios to the baseline's,
  rounded to four decimals, and the bucket's possession count.
\<close>

definition spec_delta :: "raw_row list \<Rightarrow> raw_row list \<Rightarrow> delta" where
  "spec_delta bucket close_df =
     \<lparr> paceDelta = map_option (\<lambda>x. py_round x 4)
         (np_divide (spec_weighted_mean (map pace bucket) (map poss bucket))
                    (spec_weighted_mean (map pace close_df) (map poss close_df))),
       pppDelta = map_option (\<lambda>x. py_round x 4)
         (np_divide (spec_weighted_mean (map ortg bucket) (map poss bucket))
                    (spec_weighted_mean (map ortg close_df) (map poss close_df))),
       d_nPoss = py_trunc (sum_list (map poss bucket)) \<rparr>"

text \<open>A bucket contributes its field only when it reaches the treatment threshold.\<close>

definition spec_bucket :: "raw_row list \<Rightarrow> raw_row list \<Rightarrow> delta option" where
  "spec_bucket bucket close_df =
     (if TREATMENT_MIN_POSS \<le> sum_list (map poss bucket) then Some (spec_delta bucket close_df) else None)"

text \<open>
  The entry of a team: none without a valid baseline, none when neither bucket
  contributes, otherwise the rounded baseline with the fields of the buckets.
\<close>

definition spec_team_entry :: "bool \<Rightarrow> raw_row list \<Rightarrow> string \<Rightarrow> prior_entry option" where
  "spec_team_entry has_fta_rate df t =
     (let close_df = close_rows has_fta_rate df t;
          lead = spec_bucket (bucket_rows df t ''leading'') close_df;
          trail = spec_bucket (bucket_rows df t ''trailing'') close_df
      in if sum_list (map poss close_df) < BASELINE_MIN_POSS then None
         else if lead = None \<and> trail = None then None
         else Some \<lparr> p_team = t,
                p_baseline = \<lparr> b_pace = py_round (spec_weighted_mean (map pace close_df) (map poss close_df)) 2,
                               b_ortg = py_round (spec_weighted_mean (map ortg close_df) (map poss close_df)) 2,
                               b_nPoss = py_trunc (sum_list (map poss close_df)) \<rparr>,
                leading = lead, trailing = trail \<rparr>)"

subsection \<open>Example inputs\<close>

text \<open>
  A game of two teams, its line score and box-score totals, and small stores and manifests
  on which the properties below are evaluated.
\<close>

definition ex_gid :: string where "ex_gid = ''0022500001''"

definition ex_stats :: "string \<Rightarrow> rat \<Rightarrow> string \<Rightarrow> rat \<Rightarrow> rat \<Rightarrow> stats_row" where
  "ex_stats gid tid abbr pts mins =
     \<lparr> GAME_ID = gid, WL = Some ''W'', TEAM_ID = Num tid, TEAM_ABBREVIATION = Some abbr,
       PTS = Val pts, FGA = Val 80, FTA = Val 20, TOV = Val 15, OREB = Val 10, MIN_total = Val mins \<rparr>"

definition ex_margins :: "int \<Rightarrow> (int \<rightharpoonup> int)" where
  "ex_margins d = [1 \<mapsto> d, 2 \<mapsto> - d]"

definition ex_row_lead :: raw_row where
  "ex_row_lead = \<lparr> game_id = ''0022500001'', team = ''BOS'', game_state = ''blowout'',
     team_state = ''leading'', pace = 469 / 5, ortg = 10661 / 100, poss = 469 / 20,
     fta_rate = Some (1 / 4) \<rparr>"



definition ex_line :: "rat \<Rightarrow> rat \<Rightarrow> rat \<Rightarrow> rat \<Rightarrow> line_row" where
  "ex_line tid q1 q2 q3 = \<lparr> LS_TEAM_ID = Num tid, PTS_QTR1 = Num q1, PTS_QTR2 = Num q2, PTS_QTR3 = Num q3 \<rparr>"

definition ex_summary :: "table list" where
  "ex_summary =
     [\<lparr> columns = [''GAME_ID'', ''GAME_STATUS_TEXT''], trows = [] \<rparr>,
      \<lparr> columns = [''GAME_ID'', ''TEAM_ID'', ''TEAM_ABBREVIATION'', ''PTS_QTR1'', ''PTS_QTR2'', ''PTS_QTR3'', ''PTS_QTR4'', ''PTS''],
        trows = [ex_line 1 30 28 32, ex_line 2 20 25 25] \<rparr>]"

definition ex_bad_stats :: "stats_row list" where
  "ex_bad_stats =
     [(ex_stats ex_gid 1 ''BOS'' 100 240) \<lparr> PTS := NoneS \<rparr>, ex_stats ex_gid 2 ''MIA'' 90 240]"

definition ex_close :: "string \<Rightarrow> string \<Rightarrow> rat \<Rightarrow> rat \<Rightarrow> rat \<Rightarrow> rat option \<Rightarrow> raw_row" where
  "ex_close gid t pc rt ps ft =
     \<lparr> game_id = gid, team = t, game_state = ''close'', team_state = ''neutral'',
       pace = pc, ortg = rt, poss = ps, fta_rate = ft \<rparr>"

definition ex_blowout :: "string \<Rightarrow> string \<Rightarrow> string \<Rightarrow> rat \<Rightarrow> rat \<Rightarrow> rat \<Rightarrow> raw_row" where
  "ex_blowout gid t st pc rt ps =
     \<lparr> game_id = gid, team = t, game_state = ''blowout'', team_state = st,
       pace = pc, ortg = rt, poss = ps, fta_rate = Some (1 / 4) \<rparr>"

definition ex_foul_rows :: "raw_row list" where
  "ex_foul_rows =
     [ex_close ''0022500002'' ''BOS'' 100 110 25 None,
      ex_close ''0022500003'' ''BOS'' 98 112 24 (Some (30 / 100)),
      ex_close ''0022500004'' ''BOS'' 96 120 26 (Some (40 / 100)),
      ex_close ''0022500005'' ''BOS'' 97 111 25 (Some (35 / 100))]"

definition ex_two_close :: "raw_row list" where
  "ex_two_close =
     [ex_close ''0022500002'' ''BOS'' 100 110 50 None,
      ex_close ''0022500003'' ''BOS'' 90 120 50 (Some (30 / 100))]"

definition ex_raw_store :: "raw_row list" where
  "ex_raw_store =
     [ex_close ''0022500002'' ''BOS'' 96 110 100 None,
      ex_blowout ''0022500006'' ''BOS'' ''leading'' 100 115 20,
      ex_blowout ''0022500007'' ''BOS'' ''trailing'' 90 100 10,
      ex_close ''0022500008'' ''MIA'' 99 105 120 None]"

definition ex_priors_entry :: prior_entry where
  "ex_priors_entry =
     \<lparr> p_team = ''BOS'', p_baseline = \<lparr> b_pace = 96, b_ortg = 110, b_nPoss = 100 \<rparr>,
       leading = Some \<lparr> paceDelta = Some (10417 / 10000), pppDelta = Some (2091 / 2000), d_nPoss = 20 \<rparr>,
       trailing = None \<rparr>"

definition ex_priors_doc :: priors_doc where
  "ex_priors_doc =
     \<lparr> league = Some ''NBA'', season = ''2025-26'', generated_at = Some ''2026-01-10T03:00:00'',
       priors = [ex_priors_entry] \<rparr>"

definition ex_manifest :: "manifest_entry list" where
  "ex_manifest =
     [mk_entry ''0022500001'' ''DONE'' ''success'' ''2026-01-10T03:00:00'',
      mk_entry ''0022500002'' ''ERROR'' ''no_linescore'' ''2026-01-10T03:00:05'',
      mk_entry ''0022500003'' ''SKIP_MEDIUM'' ''SKIP_MEDIUM'' ''2026-01-10T03:00:09'']"

definition ex_game_ids :: "string list" where
  "ex_game_ids = [''0022500001'', ''0022500002'', ''0022500003'', ''0022500004'']"

definition ex_env :: env where
  "ex_env = \<lparr> finder = Inr [ex_stats ex_gid 1 ''BOS'' 100 240, ex_stats ex_gid 2 ''MIA'' 90 240],
               summary = (\<lambda>g. Inr ex_summary),
               clock = (\<lambda>i. ''2026-01-10T03:00:00'') \<rparr>"



definition ex_env_down :: env where
  "ex_env_down = ex_env \<lparr> summary := (\<lambda>g. Inl ConnectionError) \<rparr>"

definition ex_store :: store where
  "ex_store = \<lparr> raw_rows = [ex_row_lead], raw_has_fta_rate = True, manifest_rows = [], priors_out = None \<rparr>"

definition ex_state :: state where
  "ex_state = \<lparr> batch_raw = [], batch_manifest = [], existing_keys = {}, raw_file = [], manifest_file = [] \<rparr>"

section \<open>Properties\<close>

subsection \<open>Helper facts\<close>


lemma bind_err_Inl_iff:
  "bind_err m f = Inl e \<longleftrightarrow> m = Inl e \<or> (\<exists>x. m = Inr x \<and> f x = Inl e)"
  by (cases m) (simp_all add: bind_err_def)





subsection \<open>Classification of the final period\<close>



subsection \<open>The formulas of the fallback estimator\<close>




subsection \<open>Third-period margins\<close>

lemma q3_margins_try_SomeE:
  assumes "q3_margins_try response = Inr (Some m)"
  obtains dfs line t1 t2 rest t1_id t2_id where
    "response = Inr dfs" "extract_line_score_table dfs = Some line" "trows line = t1 # t2 # rest"
    "py_int (LS_TEAM_ID t1) = Inr t1_id" "py_int (LS_TEAM_ID t2) = Inr t2_id"
    "m = [t1_id \<mapsto> PTS_ENTER_Q4 t1 - PTS_ENTER_Q4 t2, t2_id \<mapsto> PTS_ENTER_Q4 t2 - PTS_ENTER_Q4 t1]"
  using assms unfolding q3_margins_try_def
  by (auto simp: Let_def split: sum.splits option.splits list.splits)

lemma ex_summary_margins: "get_q3_margins (Inr ex_summary) = Some (ex_margins 20)"
  by (simp add: get_q3_margins_def q3_margins_try_def extract_line_score_table_def ex_summary_def
      required_columns_def ex_line_def PTS_ENTER_Q4_def py_trunc_def ex_margins_def)

text \<open>
  C9. When \<^verbatim>\<open>get_q3_margins\<close> returns a mapping, the summary was answered, the
  line-score table has a first row \<open>t1\<close> and a second row \<open>t2\<close> whose team identifiers
  convert to \<open>t1_id\<close> and \<open>t2_id\<close>, the keys of the mapping are exactly these two, and
  with \<open>d\<close> the points of \<open>t1\<close> minus the points of \<open>t2\<close> through three periods, the
  mapping gives \<open>- d\<close> to \<open>t2_id\<close> and, the two identifiers being those of two teams, \<open>d\<close>
  to \<open>t1_id\<close>: the two differentials sum to zero.
\<close>

theorem q3_margins_two_teams_opposite:
  assumes "get_q3_margins response = Some m"
  shows "\<exists>dfs line t1 t2 rest t1_id t2_id d.
           response = Inr dfs \<and> extract_line_score_table dfs = Some line \<and>
           trows line = t1 # t2 # rest \<and>
           py_int (LS_TEAM_ID t1) = Inr t1_id \<and> py_int (LS_TEAM_ID t2) = Inr t2_id \<and>
           dom m = {t1_id, t2_id} \<and>
           d = PTS_ENTER_Q4 t1 - PTS_ENTER_Q4 t2 \<and>
           m t2_id = Some (- d) \<and> (t1_id \<noteq> t2_id \<longrightarrow> m t1_id = Some d)"
proof -
  from assms have "q3_margins_try response = Inr (Some m)"
    by (simp add: get_q3_margins_def split: sum.splits)
  then obtain dfs line t1 t2 rest t1_id t2_id where
    a: "response = Inr dfs" "extract_line_score_table dfs = Some line" "trows line = t1 # t2 # rest"
    "py_int (LS_TEAM_ID t1) = Inr t1_id" "py_int (LS_TEAM_ID t2) = Inr t2_id"
    and m: "m = [t1_id \<mapsto> PTS_ENTER_Q4 t1 - PTS_ENTER_Q4 t2, t2_id \<mapsto> PTS_ENTER_Q4 t2 - PTS_ENTER_Q4 t1]"
    by (rule q3_margins_try_SomeE)
  from m have "dom m = {t1_id, t2_id}" by auto
  moreover from m have "m t2_id = Some (- (PTS_ENTER_Q4 t1 - PTS_ENTER_Q4 t2))" by simp
  moreover from m have "t1_id \<noteq> t2_id \<longrightarrow> m t1_id = Some (PTS_ENTER_Q4 t1 - PTS_ENTER_Q4 t2)" by simp
  ultimately show ?thesis using a by blast
qed

theorem q3_margins_two_teams_opposite_witness:
  "get_q3_margins (Inr ex_summary) = Some (ex_margins 20)
   \<and> dom (ex_margins 20) = {1, 2} \<and> ex_margins 20 1 = Some 20 \<and> ex_margins 20 2 = Some (- 20)"
proof -
  from q3_margins_two_teams_opposite [OF ex_summary_margins]
  obtain t1_id t2_id d where
    "dom (ex_margins 20) = {t1_id, t2_id}" "ex_margins 20 t2_id = Some (- d)"
    by (elim exE conjE) (rule that)
  then have "dom (ex_margins 20) = {1, 2}"
    by (auto simp: ex_margins_def)
  then show ?thesis using ex_summary_margins by (simp add: ex_margins_def)
qed

subsection \<open>The foul filter of the baseline\<close>

text \<open>
  C10. With the foul filter enabled and the column present, the filter removes exactly the
  rows whose free-throw rate is present and strictly above \<^verbatim>\<open>CLOSE_FTA_RATE_MAX\<close>, so the
  baseline rows of a team are its close rows without those; a close row whose rate is
  missing is retained.
\<close>

theorem foul_filter_keeps_missing_rate:
  "foul_filter True close_df
     = filter (\<lambda>r. \<not> (\<exists>x. fta_rate r = Some x \<and> CLOSE_FTA_RATE_MAX < x)) close_df
   \<and> close_rows True df t
     = filter (\<lambda>r. team r = t \<and> game_state r = ''close'' \<and>
                    \<not> (\<exists>x. fta_rate r = Some x \<and> CLOSE_FTA_RATE_MAX < x)) df
   \<and> (r \<in> set close_df \<and> fta_rate r = None \<longrightarrow> r \<in> set (foul_filter True close_df))"
proof -
  have p: "(\<lambda>r. fta_rate r = None \<or> (case fta_rate r of None \<Rightarrow> False | Some x \<Rightarrow> x \<le> CLOSE_FTA_RATE_MAX))
      = (\<lambda>r. \<not> (\<exists>x. fta_rate r = Some x \<and> CLOSE_FTA_RATE_MAX < x))"
    by (auto split: option.splits)
  have 1: "\<And>xs. foul_filter True xs
     = filter (\<lambda>r. \<not> (\<exists>x. fta_rate r = Some x \<and> CLOSE_FTA_RATE_MAX < x)) xs"
    by (simp add: foul_filter_def ENABLE_FOUL_FILTER_def p)
  have 2: "close_rows True df t
     = filter (\<lambda>r. team r = t \<and> game_state r = ''close'' \<and>
                    \<not> (\<exists>x. fta_rate r = Some x \<and> CLOSE_FTA_RATE_MAX < x)) df"
    unfolding close_rows_def 1 by (simp add: conj_commute conj_left_commute)
  show ?thesis using 1 2 by simp
qed

theorem foul_filter_keeps_missing_rate_witness:
  "foul_filter True ex_foul_rows =
     [ex_close ''0022500002'' ''BOS'' 100 110 25 None,
      ex_close ''0022500003'' ''BOS'' 98 112 24 (Some (30 / 100)),
      ex_close ''0022500005'' ''BOS'' 97 111 25 (Some (35 / 100))]
   \<and> ex_close ''0022500002'' ''BOS'' 100 110 25 None \<in> set (foul_filter True ex_foul_rows)"
proof -
  have "ex_close ''0022500002'' ''BOS'' 100 110 25 None \<in> set ex_foul_rows
      \<and> fta_rate (ex_close ''0022500002'' ''BOS'' 100 110 25 None) = None"
    by (simp add: ex_foul_rows_def ex_close_def)
  with foul_filter_keeps_missing_rate [of ex_foul_rows "[]" "[]" "ex_close ''0022500002'' ''BOS'' 100 110 25 None"]
  have "ex_close ''0022500002'' ''BOS'' 100 110 25 None \<in> set (foul_filter True ex_foul_rows)"
    by blast
  moreover have "foul_filter True ex_foul_rows =
     [ex_close ''0022500002'' ''BOS'' 100 110 25 None,
      ex_close ''0022500003'' ''BOS'' 98 112 24 (Some (30 / 100)),
      ex_close ''0022500005'' ''BOS'' 97 111 25 (Some (35 / 100))]"
    by code_simp
  ultimately show ?thesis by simp
qed

subsection \<open>Games already processed\<close>

text \<open>
  C5. A discovered game is processed in normal mode exactly when the manifest has no entry
  for it, whatever the status; in retry mode exactly when the manifest has no entry for it
  with status \<^verbatim>\<open>DONE\<close> or \<^verbatim>\<open>SKIP_MEDIUM\<close>, so a game whose entries are all
  \<^verbatim>\<open>ERROR\<close> is processed again.
\<close>

theorem already_processed_by_mode:
  "(g \<in> set (new_game_ids False manifest all_game_ids)
      \<longleftrightarrow> g \<in> set all_game_ids \<and> \<not> (\<exists>m \<in> set manifest. me_game_id m = g))
   \<and> (g \<in> set (new_game_ids True manifest all_game_ids)
      \<longleftrightarrow> g \<in> set all_game_ids \<and>
          \<not> (\<exists>m \<in> set manifest. me_game_id m = g \<and> (status m = ''DONE'' \<or> status m = ''SKIP_MEDIUM'')))"
  by (auto simp: new_game_ids_def processed_ids_def)

theorem already_processed_by_mode_witness:
  "new_game_ids False ex_manifest ex_game_ids = [''0022500004'']
   \<and> new_game_ids True ex_manifest ex_game_ids = [''0022500002'', ''0022500004'']
   \<and> ''0022500002'' \<in> set (new_game_ids True ex_manifest ex_game_ids)
   \<and> ''0022500002'' \<notin> set (new_game_ids False ex_manifest ex_game_ids)"
proof -
  have "''0022500002'' \<in> set ex_game_ids" by (simp add: ex_game_ids_def)
  moreover have "\<not> (\<exists>m \<in> set ex_manifest. me_game_id m = ''0022500002'' \<and>
      (status m = ''DONE'' \<or> status m = ''SKIP_MEDIUM''))"
    by (simp add: ex_manifest_def mk_entry_def)
  moreover have "\<exists>m \<in> set ex_manifest. me_game_id m = ''0022500002''"
    by (simp add: ex_manifest_def mk_entry_def)
  ultimately have "''0022500002'' \<in> set (new_game_ids True ex_manifest ex_game_ids)
      \<and> ''0022500002'' \<notin> set (new_game_ids False ex_manifest ex_game_ids)"
    using already_processed_by_mode [of "''0022500002''" ex_manifest ex_game_ids] by blast
  moreover have "new_game_ids False ex_manifest ex_game_ids = [''0022500004'']"
    by code_simp
  moreover have "new_game_ids True ex_manifest ex_game_ids = [''0022500002'', ''0022500004'']"
    by code_simp
  ultimately show ?thesis by simp
qed

subsection \<open>Uniqueness of the keys of the raw store\<close>










subsection \<open>The aggregator computes the aggregates of the specification\<close>

lemma np_average_mean:
  "sum_list w \<noteq> 0 \<Longrightarrow> np_average a w = Inr (spec_weighted_mean a w)"
  by (simp add: np_average_def spec_weighted_mean_def)

lemma team_baseline_eq:
  "team_baseline has_fta_rate df t =
     (if sum_list (map poss (close_rows has_fta_rate df t)) < BASELINE_MIN_POSS then Inr None
      else Inr (Some (spec_weighted_mean (map pace (close_rows has_fta_rate df t)) (map poss (close_rows has_fta_rate df t)),
                      spec_weighted_mean (map ortg (close_rows has_fta_rate df t)) (map poss (close_rows has_fta_rate df t)),
                      sum_list (map poss (close_rows has_fta_rate df t)))))"
proof (cases "sum_list (map poss (close_rows has_fta_rate df t)) < BASELINE_MIN_POSS")
  case True
  then show ?thesis by (simp add: team_baseline_def Let_def)
next
  case False
  then have "sum_list (map poss (close_rows has_fta_rate df t)) \<noteq> 0"
    by (simp add: BASELINE_MIN_POSS_def)
  with False show ?thesis
    by (simp add: team_baseline_def np_average_mean bind_err_def Let_def)
qed

lemma bucket_delta_eq:
  "bucket_delta df t state
      (spec_weighted_mean (map pace close_df) (map poss close_df))
      (spec_weighted_mean (map ortg close_df) (map poss close_df))
     = Inr (spec_bucket (bucket_rows df t state) close_df)"
proof (cases "TREATMENT_MIN_POSS \<le> sum_list (map poss (bucket_rows df t state))")
  case True
  then have "sum_list (map poss (bucket_rows df t state)) \<noteq> 0"
    by (simp add: TREATMENT_MIN_POSS_def)
  with True show ?thesis
    by (simp add: bucket_delta_def spec_bucket_def spec_delta_def np_average_mean bind_err_def Let_def)
next
  case False
  then show ?thesis by (simp add: bucket_delta_def spec_bucket_def Let_def)
qed

lemma team_entry_eq: "team_entry has_fta_rate df t = Inr (spec_team_entry has_fta_rate df t)"
  by (simp add: team_entry_def team_baseline_eq bucket_delta_eq spec_team_entry_def bind_err_def Let_def)

lemma team_loop_eq:
  "team_loop has_fta_rate df ts acc = Inr (acc @ List.map_filter (spec_team_entry has_fta_rate df) ts)"
proof (induction ts arbitrary: acc)
  case Nil
  then show ?case by simp
next
  case (Cons t ts)
  then show ?case
    by (cases "spec_team_entry has_fta_rate df t") (simp_all add: team_entry_eq)
qed

lemma set_pd_unique: "set (pd_unique xs) = set xs"
  by (induction xs rule: pd_unique.induct) auto

lemma generate_priors_eq:
  "generate_priors has_fta_rate df season' now =
     Inr (if df = [] then \<lparr> league = None, season = season', generated_at = None, priors = [] \<rparr>
          else \<lparr> league = Some ''NBA'', season = season', generated_at = Some now,
                 priors = List.map_filter (spec_team_entry has_fta_rate df) (sort (pd_unique (map team df))) \<rparr>)"
  by (simp add: generate_priors_def team_loop_eq bind_err_def)

lemma generate_priors_returns: "\<exists>doc. generate_priors has_fta_rate df season' now = Inr doc"
  by (simp add: generate_priors_eq)

lemma set_map_filter:
  "y \<in> set (List.map_filter f xs) \<longleftrightarrow> (\<exists>x \<in> set xs. f x = Some y)"
  by (induction xs) (auto split: option.splits)

lemma priors_entries:
  assumes "generate_priors has_fta_rate df season' now = Inr doc"
  shows "entry \<in> set (priors doc)
         \<longleftrightarrow> (\<exists>t \<in> set (map team df). spec_team_entry has_fta_rate df t = Some entry)"
proof (cases "df = []")
  case True
  with assms show ?thesis by (auto simp: generate_priors_eq)
next
  case False
  with assms have "priors doc
      = List.map_filter (spec_team_entry has_fta_rate df) (sort (pd_unique (map team df)))"
    by (auto simp: generate_priors_eq)
  then show ?thesis
    by (simp only: set_map_filter set_sort set_pd_unique)
qed

text \<open>
  The two close rows \<open>(pace = 100, poss = 50)\<close> and \<open>(pace = 90, poss = 50)\<close> of the
  specification: the baseline pace is 95.
\<close>

lemma ex_two_close_rows: "close_rows True ex_two_close ''BOS'' = ex_two_close"
  by code_simp

lemma ex_generate_priors:
  "generate_priors True ex_raw_store ''2025-26'' ''2026-01-10T03:00:00'' = Inr ex_priors_doc"
  by code_simp

subsection \<open>The baseline of the aggregator\<close>

text \<open>
  C3. For a team whose filtered close rows reach the sample threshold (they are then
  non-empty), the baseline pace and offensive rating that the aggregator computes are the
  possession-weighted means of the rows' pace and rating, the sum of value times
  possessions divided by the sum of possessions; below the threshold no baseline is
  computed. The entry of the team, when it has one, holds the two means rounded to two
  decimals.
\<close>

theorem baseline_is_weighted_mean:
  "(BASELINE_MIN_POSS \<le> sum_list (map poss (close_rows has_fta_rate df t)) \<longrightarrow>
      close_rows has_fta_rate df t \<noteq> [] \<and>
      team_baseline has_fta_rate df t =
        Inr (Some (spec_weighted_mean (map pace (close_rows has_fta_rate df t))
                                      (map poss (close_rows has_fta_rate df t)),
                   spec_weighted_mean (map ortg (close_rows has_fta_rate df t))
                                      (map poss (close_rows has_fta_rate df t)),
                   sum_list (map poss (close_rows has_fta_rate df t)))))
   \<and> (sum_list (map poss (close_rows has_fta_rate df t)) < BASELINE_MIN_POSS \<longrightarrow>
      team_baseline has_fta_rate df t = Inr None)
   \<and> (\<forall>entry. team_entry has_fta_rate df t = Inr (Some entry) \<longrightarrow>
      b_pace (p_baseline entry) =
        py_round (spec_weighted_mean (map pace (close_rows has_fta_rate df t))
                                     (map poss (close_rows has_fta_rate df t))) 2 \<and>
      b_ortg (p_baseline entry) =
        py_round (spec_weighted_mean (map ortg (close_rows has_fta_rate df t))
                                     (map poss (close_rows has_fta_rate df t))) 2)"
proof (intro conjI impI allI)
  assume a: "BASELINE_MIN_POSS \<le> sum_list (map poss (close_rows has_fta_rate df t))"
  then show "close_rows has_fta_rate df t \<noteq> []"
    by (auto simp: BASELINE_MIN_POSS_def)
  from a show "team_baseline has_fta_rate df t =
        Inr (Some (spec_weighted_mean (map pace (close_rows has_fta_rate df t))
                                      (map poss (close_rows has_fta_rate df t)),
                   spec_weighted_mean (map ortg (close_rows has_fta_rate df t))
                                      (map poss (close_rows has_fta_rate df t)),
                   sum_list (map poss (close_rows has_fta_rate df t))))"
    by (simp add: team_baseline_eq)
next
  assume "sum_list (map poss (close_rows has_fta_rate df t)) < BASELINE_MIN_POSS"
  then show "team_baseline has_fta_rate df t = Inr None"
    by (simp add: team_baseline_eq)
next
  fix entry
  assume "team_entry has_fta_rate df t = Inr (Some entry)"
  then have e: "spec_team_entry has_fta_rate df t = Some entry"
    by (simp add: team_entry_eq)
  then show "b_pace (p_baseline entry) =
        py_round (spec_weighted_mean (map pace (close_rows has_fta_rate df t))
                                     (map poss (close_rows has_fta_rate df t))) 2"
    by (auto simp: spec_team_entry_def Let_def split: if_split_asm)
  from e show "b_ortg (p_baseline entry) =
        py_round (spec_weighted_mean (map ortg (close_rows has_fta_rate df t))
                                     (map poss (close_rows has_fta_rate df t))) 2"
    by (auto simp: spec_team_entry_def Let_def split: if_split_asm)
qed

theorem baseline_is_weighted_mean_witness:
  "BASELINE_MIN_POSS \<le> sum_list (map poss (close_rows True ex_two_close ''BOS''))
   \<and> team_baseline True ex_two_close ''BOS'' = Inr (Some (95, 115, 100))
   \<and> spec_weighted_mean (map pace ex_two_close) (map poss ex_two_close) = 95
   \<and> team_entry True ex_raw_store ''BOS'' = Inr (Some ex_priors_entry)
   \<and> b_pace (p_baseline ex_priors_entry) = 96"
proof -
  have a: "BASELINE_MIN_POSS \<le> sum_list (map poss (close_rows True ex_two_close ''BOS''))"
    by code_simp
  have m: "spec_weighted_mean (map pace ex_two_close) (map poss ex_two_close) = 95"
    "spec_weighted_mean (map ortg ex_two_close) (map poss ex_two_close) = 115"
    "sum_list (map poss ex_two_close) = 100"
    by code_simp+
  have e: "team_entry True ex_raw_store ''BOS'' = Inr (Some ex_priors_entry)"
    by code_simp
  from baseline_is_weighted_mean [of True ex_two_close "''BOS''"] a
  have "team_baseline True ex_two_close ''BOS'' = Inr (Some (95, 115, 100))"
    by (simp add: ex_two_close_rows m)
  moreover have "b_pace (p_baseline ex_priors_entry) = 96"
    by (simp add: ex_priors_entry_def)
  ultimately show ?thesis using a m e by simp
qed

subsection \<open>Threshold gating of the priors\<close>

text \<open>
  C4, as amended. The aggregator returns a document, and every entry of its priors list
  is for a team whose filtered close rows have at least \<^verbatim>\<open>BASELINE_MIN_POSS\<close> possessions
  and of whose leading and trailing blowout buckets at least one has
  \<^verbatim>\<open>TREATMENT_MIN_POSS\<close> possessions. A bucket below the threshold gives no field. A bucket
  that reaches it gives the field whose deltas are the bucket's possession-weighted means
  divided by the baseline means and rounded to four decimals, with the truncated possession
  total of the bucket.
\<close>

theorem priors_entry_gating:
  "\<exists>doc. generate_priors has_fta_rate df season' now = Inr doc \<and>
     (\<forall>entry \<in> set (priors doc).
        BASELINE_MIN_POSS \<le> sum_list (map poss (close_rows has_fta_rate df (p_team entry))) \<and>
        (TREATMENT_MIN_POSS \<le> sum_list (map poss (bucket_rows df (p_team entry) ''leading'')) \<or>
         TREATMENT_MIN_POSS \<le> sum_list (map poss (bucket_rows df (p_team entry) ''trailing''))) \<and>
        leading entry =
          (if TREATMENT_MIN_POSS \<le> sum_list (map poss (bucket_rows df (p_team entry) ''leading''))
           then Some (spec_delta (bucket_rows df (p_team entry) ''leading'')
                                 (close_rows has_fta_rate df (p_team entry)))
           else None) \<and>
        trailing entry =
          (if TREATMENT_MIN_POSS \<le> sum_list (map poss (bucket_rows df (p_team entry) ''trailing''))
           then Some (spec_delta (bucket_rows df (p_team entry) ''trailing'')
                                 (close_rows has_fta_rate df (p_team entry)))
           else None))"
proof -
  obtain doc where doc: "generate_priors has_fta_rate df season' now = Inr doc"
    by (simp add: generate_priors_eq)
  have "BASELINE_MIN_POSS \<le> sum_list (map poss (close_rows has_fta_rate df (p_team entry))) \<and>
        (TREATMENT_MIN_POSS \<le> sum_list (map poss (bucket_rows df (p_team entry) ''leading'')) \<or>
         TREATMENT_MIN_POSS \<le> sum_list (map poss (bucket_rows df (p_team entry) ''trailing''))) \<and>
        leading entry =
          (if TREATMENT_MIN_POSS \<le> sum_list (map poss (bucket_rows df (p_team entry) ''leading''))
           then Some (spec_delta (bucket_rows df (p_team entry) ''leading'')
                                 (close_rows has_fta_rate df (p_team entry)))
           else None) \<and>
        trailing entry =
          (if TREATMENT_MIN_POSS \<le> sum_list (map poss (bucket_rows df (p_team entry) ''trailing''))
           then Some (spec_delta (bucket_rows df (p_team entry) ''trailing'')
                                 (close_rows has_fta_rate df (p_team entry)))
           else None)"
    if "entry \<in> set (priors doc)" for entry
  proof -
    from that priors_entries [OF doc] obtain t where
      t: "spec_team_entry has_fta_rate df t = Some entry" by blast
    then have pt: "p_team entry = t"
      by (auto simp: spec_team_entry_def Let_def split: if_split_asm)
    from t show ?thesis
      unfolding pt
      by (auto simp: spec_team_entry_def spec_bucket_def Let_def split: if_split_asm)
  qed
  with doc show ?thesis by blast
qed

theorem priors_entry_gating_witness:
  "generate_priors True ex_raw_store ''2025-26'' ''2026-01-10T03:00:00'' = Inr ex_priors_doc
   \<and> ex_priors_entry \<in> set (priors ex_priors_doc)
   \<and> BASELINE_MIN_POSS \<le> sum_list (map poss (close_rows True ex_raw_store ''BOS''))
   \<and> TREATMENT_MIN_POSS \<le> sum_list (map poss (bucket_rows ex_raw_store ''BOS'' ''leading''))
   \<and> sum_list (map poss (bucket_rows ex_raw_store ''BOS'' ''trailing'')) < TREATMENT_MIN_POSS
   \<and> leading ex_priors_entry
        = Some (spec_delta (bucket_rows ex_raw_store ''BOS'' ''leading'') (close_rows True ex_raw_store ''BOS''))
   \<and> trailing ex_priors_entry = None"
proof -
  have mem: "ex_priors_entry \<in> set (priors ex_priors_doc)"
    by (simp add: ex_priors_doc_def)
  have team: "p_team ex_priors_entry = ''BOS''"
    by (simp add: ex_priors_entry_def)
  have lead: "TREATMENT_MIN_POSS \<le> sum_list (map poss (bucket_rows ex_raw_store ''BOS'' ''leading''))"
    by code_simp
  have trail: "sum_list (map poss (bucket_rows ex_raw_store ''BOS'' ''trailing'')) < TREATMENT_MIN_POSS"
    by code_simp
  from priors_entry_gating [of True ex_raw_store "''2025-26''" "''2026-01-10T03:00:00''"]
  have "\<forall>entry \<in> set (priors ex_priors_doc).
        BASELINE_MIN_POSS \<le> sum_list (map poss (close_rows True ex_raw_store (p_team entry))) \<and>
        leading entry =
          (if TREATMENT_MIN_POSS \<le> sum_list (map poss (bucket_rows ex_raw_store (p_team entry) ''leading''))
           then Some (spec_delta (bucket_rows ex_raw_store (p_team entry) ''leading'')
                                 (close_rows True ex_raw_store (p_team entry)))
           else None) \<and>
        trailing entry =
          (if TREATMENT_MIN_POSS \<le> sum_list (map poss (bucket_rows ex_raw_store (p_team entry) ''trailing''))
           then Some (spec_delta (bucket_rows ex_raw_store (p_team entry) ''trailing'')
                                 (close_rows True ex_raw_store (p_team entry)))
           else None)"
    unfolding ex_generate_priors by blast
  with mem have "BASELINE_MIN_POSS \<le> sum_list (map poss (close_rows True ex_raw_store ''BOS'')) \<and>
        leading ex_priors_entry =
          (if TREATMENT_MIN_POSS \<le> sum_list (map poss (bucket_rows ex_raw_store ''BOS'' ''leading''))
           then Some (spec_delta (bucket_rows ex_raw_store ''BOS'' ''leading'')
                                 (close_rows True ex_raw_store ''BOS''))
           else None) \<and>
        trailing ex_priors_entry =
          (if TREATMENT_MIN_POSS \<le> sum_list (map poss (bucket_rows ex_raw_store ''BOS'' ''trailing''))
           then Some (spec_delta (bucket_rows ex_raw_store ''BOS'' ''trailing'')
                                 (close_rows True ex_raw_store ''BOS''))
           else None)"
    unfolding team [symmetric] by blast
  with lead trail mem ex_generate_priors show ?thesis by simp
qed

text \<open>
  C4 as stated, with the deltas equal to the quotient of the means, fails on this store:
  the bucket's mean pace is 100, the baseline's is 96, and the pace delta of the entry is
  the quotient rounded to four decimals, 1.0417.
\<close>

theorem delta_is_rounded_counterexample:
  "generate_priors True ex_raw_store ''2025-26'' ''2026-01-10T03:00:00'' = Inr ex_priors_doc
   \<and> priors ex_priors_doc = [ex_priors_entry]
   \<and> map_option paceDelta (leading ex_priors_entry) = Some (Some (10417 / 10000))
   \<and> spec_weighted_mean (map pace (bucket_rows ex_raw_store ''BOS'' ''leading''))
                         (map poss (bucket_rows ex_raw_store ''BOS'' ''leading'')) = 100
   \<and> spec_weighted_mean (map pace (close_rows True ex_raw_store ''BOS''))
                         (map poss (close_rows True ex_raw_store ''BOS'')) = 96
   \<and> (10417 / 10000 :: rat) \<noteq> 100 / 96"
  by code_simp

subsection \<open>Failure of the discovery\<close>




subsection \<open>One manifest entry for each game\<close>

lemma no_skip_in_error_status: "\<not> py_contains ''SKIP'' (''ERROR_'' @ exn_name err)"
  by (cases err) simp_all

lemma fetch_status_cases:
  assumes "fetch_q4_rows_fallback gid margins df = (rows, st)"
  shows "(fetch_q4_rows_try gid margins df = Inr (rows, st))
       \<or> (\<exists>err. fetch_q4_rows_try gid margins df = Inl err \<and> rows = [] \<and> st = ''ERROR_'' @ exn_name err)"
  using assms by (auto simp: fetch_q4_rows_fallback_def split: sum.splits)

lemma flush_manifest:
  "manifest_file (flush n i s) @ batch_manifest (flush n i s) = manifest_file s @ batch_manifest s"
  by (simp add: flush_def)

lemma game_step_entry:
  "\<exists>entry. manifest_file (game_step e df n i gid s) @ batch_manifest (game_step e df n i gid s)
              = manifest_file s @ batch_manifest s @ [entry]
     \<and> me_game_id entry = gid
     \<and> (get_q3_margins (summary e gid) = None \<longrightarrow>
          status entry = ''ERROR'' \<and> reason entry = ''no_linescore'')
     \<and> (\<forall>margins err. get_q3_margins (summary e gid) = Some margins \<and>
            fetch_q4_rows_try gid margins df = Inl err \<longrightarrow>
          status entry = ''ERROR'' \<and> reason entry = ''ERROR_'' @ exn_name err)"
proof (cases "get_q3_margins (summary e gid)")
  case None
  then show ?thesis by (simp add: game_step_def mk_entry_def)
next
  case (Some margins)
  obtain rows st where f: "fetch_q4_rows_fallback gid margins df = (rows, st)"
    by (cases "fetch_q4_rows_fallback gid margins df")
  show ?thesis
  proof (cases "st = ''DONE''")
    case True
    obtain batch keys where sr: "stage_rows rows (batch_raw s, existing_keys s) = (batch, keys)"
      by (cases "stage_rows rows (batch_raw s, existing_keys s)")
    from f True have "\<nexists>err. fetch_q4_rows_try gid margins df = Inl err"
      by (auto simp: fetch_q4_rows_fallback_def split: sum.splits)
    with Some f True sr show ?thesis
      by (simp add: game_step_def flush_manifest mk_entry_def)
  next
    case False
    have "\<And>err. fetch_q4_rows_try gid margins df = Inl err \<Longrightarrow> st = ''ERROR_'' @ exn_name err"
      using f by (auto simp: fetch_q4_rows_fallback_def)
    with Some f False show ?thesis
      using no_skip_in_error_status
      by (auto simp: game_step_def flush_manifest mk_entry_def)
  qed
qed

lemma main_loop_entries:
  "map me_game_id (manifest_file (main_loop e df n i gids s) @ batch_manifest (main_loop e df n i gids s))
     = map me_game_id (manifest_file s @ batch_manifest s) @ gids"
proof (induction gids arbitrary: i s)
  case Nil
  then show ?case by simp
next
  case (Cons gid gids)
  from game_step_entry [of e df n i gid s] obtain entry where
    "manifest_file (game_step e df n i gid s) @ batch_manifest (game_step e df n i gid s)
       = manifest_file s @ batch_manifest s @ [entry]" "me_game_id entry = gid"
    by blast
  then have "map me_game_id (manifest_file (game_step e df n i gid s) @ batch_manifest (game_step e df n i gid s))
      = map me_game_id (manifest_file s @ batch_manifest s) @ [gid]"
    by simp
  with Cons.IH [of "Suc i" "game_step e df n i gid s"] show ?case by simp
qed

lemma ex_bad_stats_raise: "fetch_q4_rows_try ex_gid (ex_margins 20) ex_bad_stats = Inl TypeError"
  by code_simp

text \<open>
  C7, as amended. An iteration of the main loop never raises and stages exactly one
  manifest entry, for its game: with status \<^verbatim>\<open>ERROR\<close> and reason \<^verbatim>\<open>no_linescore\<close> when the
  margin step gives nothing, whether it found no line score or raised; with status
  \<^verbatim>\<open>ERROR\<close> and reason \<^verbatim>\<open>ERROR_\<close> followed by the name of the exception when the metric step
  raised. The loop goes through every game: the entries written and staged after it are
  those before it followed by one entry for each game, in order.
\<close>

theorem every_game_stages_one_entry:
  "(\<exists>entry. manifest_file (game_step e df n i gid s) @ batch_manifest (game_step e df n i gid s)
              = manifest_file s @ batch_manifest s @ [entry]
     \<and> me_game_id entry = gid
     \<and> (get_q3_margins (summary e gid) = None \<longrightarrow>
          status entry = ''ERROR'' \<and> reason entry = ''no_linescore'')
     \<and> (\<forall>margins err. get_q3_margins (summary e gid) = Some margins \<and>
            fetch_q4_rows_try gid margins df = Inl err \<longrightarrow>
          status entry = ''ERROR'' \<and> reason entry = ''ERROR_'' @ exn_name err))
   \<and> map me_game_id (manifest_file (main_loop e df n i gids s) @ batch_manifest (main_loop e df n i gids s))
     = map me_game_id (manifest_file s @ batch_manifest s) @ gids"
  using game_step_entry [of e df n i gid s] main_loop_entries [of e df n i gids s]
  by (rule conjI)

theorem every_game_stages_one_entry_witness:
  "get_q3_margins (summary ex_env ex_gid) = Some (ex_margins 20)
   \<and> fetch_q4_rows_try ex_gid (ex_margins 20) ex_bad_stats = Inl TypeError
   \<and> map status (batch_manifest (game_step ex_env ex_bad_stats 2 0 ex_gid ex_state)) = [''ERROR'']
   \<and> map reason (batch_manifest (game_step ex_env ex_bad_stats 2 0 ex_gid ex_state)) = [''ERROR_TypeError'']
   \<and> get_q3_margins (summary ex_env_down ex_gid) = None
   \<and> map reason (batch_manifest (game_step ex_env_down ex_bad_stats 2 0 ex_gid ex_state)) = [''no_linescore'']"
proof -
  have m: "get_q3_margins (summary ex_env ex_gid) = Some (ex_margins 20)"
    by (simp add: ex_env_def ex_summary_margins)
  have d: "get_q3_margins (summary ex_env_down ex_gid) = None"
    by (simp add: ex_env_down_def get_q3_margins_def q3_margins_try_def)
  have f: "\<And>e. manifest_file (game_step e ex_bad_stats 2 0 ex_gid ex_state) = []"
    by (simp add: game_step_def flush_def BATCH_SIZE_def ex_state_def mk_entry_def
        split: option.splits prod.splits)
  have "\<exists>entry. manifest_file (game_step ex_env ex_bad_stats 2 0 ex_gid ex_state)
                @ batch_manifest (game_step ex_env ex_bad_stats 2 0 ex_gid ex_state)
              = manifest_file ex_state @ batch_manifest ex_state @ [entry]
     \<and> me_game_id entry = ex_gid
     \<and> (get_q3_margins (summary ex_env ex_gid) = None \<longrightarrow>
          status entry = ''ERROR'' \<and> reason entry = ''no_linescore'')
     \<and> (\<forall>margins err. get_q3_margins (summary ex_env ex_gid) = Some margins \<and>
            fetch_q4_rows_try ex_gid margins ex_bad_stats = Inl err \<longrightarrow>
          status entry = ''ERROR'' \<and> reason entry = ''ERROR_'' @ exn_name err)"
    using every_game_stages_one_entry [of ex_env ex_bad_stats 2 0 ex_gid ex_state "[]"]
    by (rule conjunct1)
  then obtain entry where
    e: "batch_manifest (game_step ex_env ex_bad_stats 2 0 ex_gid ex_state) = [entry]"
    and r: "\<forall>margins err. get_q3_margins (summary ex_env ex_gid) = Some margins \<and>
            fetch_q4_rows_try ex_gid margins ex_bad_stats = Inl err \<longrightarrow>
          status entry = ''ERROR'' \<and> reason entry = ''ERROR_'' @ exn_name err"
    unfolding f by (auto simp: ex_state_def)
  from r m ex_bad_stats_raise have "status entry = ''ERROR'' \<and> reason entry = ''ERROR_'' @ exn_name TypeError"
    by blast
  with e have 1: "map status (batch_manifest (game_step ex_env ex_bad_stats 2 0 ex_gid ex_state)) = [''ERROR'']"
    "map reason (batch_manifest (game_step ex_env ex_bad_stats 2 0 ex_gid ex_state)) = [''ERROR_TypeError'']"
    by simp_all
  have "\<exists>entry. manifest_file (game_step ex_env_down ex_bad_stats 2 0 ex_gid ex_state)
                @ batch_manifest (game_step ex_env_down ex_bad_stats 2 0 ex_gid ex_state)
              = manifest_file ex_state @ batch_manifest ex_state @ [entry]
     \<and> me_game_id entry = ex_gid
     \<and> (get_q3_margins (summary ex_env_down ex_gid) = None \<longrightarrow>
          status entry = ''ERROR'' \<and> reason entry = ''no_linescore'')
     \<and> (\<forall>margins err. get_q3_margins (summary ex_env_down ex_gid) = Some margins \<and>
            fetch_q4_rows_try ex_gid margins ex_bad_stats = Inl err \<longrightarrow>
          status entry = ''ERROR'' \<and> reason entry = ''ERROR_'' @ exn_name err)"
    using every_game_stages_one_entry [of ex_env_down ex_bad_stats 2 0 ex_gid ex_state "[]"]
    by (rule conjunct1)
  then obtain entry' where
    e': "batch_manifest (game_step ex_env_down ex_bad_stats 2 0 ex_gid ex_state) = [entry']"
    and r': "get_q3_margins (summary ex_env_down ex_gid) = None \<longrightarrow>
          status entry' = ''ERROR'' \<and> reason entry' = ''no_linescore''"
    unfolding f by (auto simp: ex_state_def)
  from r' d e' have 2: "map reason (batch_manifest (game_step ex_env_down ex_bad_stats 2 0 ex_gid ex_state)) = [''no_linescore'']"
    by simp
  from m d ex_bad_stats_raise 1 2 show ?thesis by simp
qed

text \<open>
  C7 as stated, with the kind of every exception in the reason, fails when the summary
  request raises: the bare \<^verbatim>\<open>except\<close> of \<^verbatim>\<open>get_q3_margins\<close> turns the exception into
  \<^verbatim>\<open>None\<close>, and the entry has the reason \<^verbatim>\<open>no_linescore\<close>.
\<close>

theorem margin_exception_reason_counterexample:
  "q3_margins_try (summary ex_env_down ex_gid) = Inl ConnectionError
   \<and> batch_manifest (game_step ex_env_down ex_bad_stats 2 0 ex_gid ex_state)
       = [mk_entry ex_gid ''ERROR'' ''no_linescore'' ''2026-01-10T03:00:00'']
   \<and> \<not> py_contains (exn_name ConnectionError) ''no_linescore''"
proof (intro conjI)
  show "q3_margins_try (summary ex_env_down ex_gid) = Inl ConnectionError"
    by (simp add: ex_env_down_def q3_margins_try_def)
  show "batch_manifest (game_step ex_env_down ex_bad_stats 2 0 ex_gid ex_state)
       = [mk_entry ex_gid ''ERROR'' ''no_linescore'' ''2026-01-10T03:00:00'']"
    by code_simp
  show "\<not> py_contains (exn_name ConnectionError) ''no_linescore''"
    by code_simp
qed

text \<open>
  The \<^verbatim>\<open>continue\<close> of line 311 also skips the flush of lines 332 to 336: when the last
  game of a run has no margins, the entries staged since the last flush are not written.
\<close>

lemma last_batch_not_written:
  "manifest_rows (files (main ex_env_down ''2025-26'' False ex_store)) = manifest_rows ex_store"
  by code_simp

end
